theory Spec2Isabelle
  imports Main
begin

section \<open>Python text primitives used by the host library and the service\<close>

text \<open>
  Text is modelled as \<^typ>\<open>string\<close> whose characters are ASCII code points: the serial
  protocol is ASCII, and so are the MQTT topics and payloads the service acts on. Text
  outside ASCII is outside this model.
\<close>

definition is_space :: "char \<Rightarrow> bool" where
  \<comment> \<open>the ASCII characters for which Python's \<open>str.isspace\<close> holds\<close>
  "is_space c = (of_char c \<in> {9, 10, 11, 12, 13, 28, 29, 30, 31, 32 :: nat})"

definition strip :: "string \<Rightarrow> string" where
  \<comment> \<open>\<open>s.strip()\<close>\<close>
  "strip s = rev (dropWhile is_space (rev (dropWhile is_space s)))"



definition startswith :: "string \<Rightarrow> string \<Rightarrow> bool" where
  \<comment> \<open>\<open>s.startswith(p)\<close>\<close>
  "startswith s p = (take (length p) s = p)"

fun join_lines :: "string list \<Rightarrow> string" where
  \<comment> \<open>\<open>"\n".join(lines)\<close>\<close>
  "join_lines [] = []"
| "join_lines [l] = l"
| "join_lines (l # ls) = l @ CHR 0x0A # join_lines ls"


definition digit_char :: "nat \<Rightarrow> char" where
  "digit_char d = ''0123456789'' ! d"

fun str_nat :: "nat \<Rightarrow> string" where
  "str_nat n =
     (if n < 10 then [digit_char n] else str_nat (n div 10) @ [digit_char (n mod 10)])"

declare str_nat.simps [simp del]

definition str_int :: "int \<Rightarrow> string" where
  \<comment> \<open>\<open>str(i)\<close>, as an f-string renders an integer\<close>
  "str_int i = (if i < 0 then CHR ''-'' # str_nat (nat (- i)) else str_nat (nat i))"

definition is_digit :: "char \<Rightarrow> bool" where
  "is_digit c = (48 \<le> (of_char c :: nat) \<and> (of_char c :: nat) \<le> 57)"

definition digit_val :: "char \<Rightarrow> nat" where
  "digit_val c = (of_char c :: nat) - 48"

fun parse_digits :: "string \<Rightarrow> nat \<Rightarrow> bool \<Rightarrow> nat option" where
  \<comment> \<open>the digit part of an integer literal: decimal digits, single underscores allowed
      between digits only; the flag says that the previous character was a digit\<close>
  "parse_digits [] acc lastd = (if lastd then Some acc else None)"
| "parse_digits (c # cs) acc lastd =
     (if is_digit c then parse_digits cs (10 * acc + digit_val c) True
      else if c = CHR ''_'' \<and> lastd then parse_digits cs acc False
      else None)"

text \<open>
  The exceptions of the library and of the Python calls the handlers make. What a
  \<open>ConnectionError\<close> reports is kept as a reason, not as message text; an
  \<open>HTTPException\<close> carries its status code.
\<close>

datatype conn_failure = NoBoardFound | OpenFailed | BadPing string

datatype exn =
    CommandError string
  | ConnectionError conn_failure
  | SerialException
  | ValueError
  | AttributeError
  | JSONDecodeError
  | HTTPException nat

definition is_int_space :: "char \<Rightarrow> bool" where
  \<comment> \<open>the whitespace \<open>int()\<close> skips around an ASCII literal: tab, LF, VT, FF, CR and
      space, but not the separators 0x1C to 0x1F that \<open>str.strip\<close> removes\<close>
  "is_int_space c = (of_char c \<in> {9, 10, 11, 12, 13, 32 :: nat})"

definition int_max_str_digits :: nat where
  \<comment> \<open>the interpreter's default limit on the digits of a decimal literal\<close>
  "int_max_str_digits = 4300"

definition py_int :: "string \<Rightarrow> exn + int" where
  \<comment> \<open>\<open>int(s)\<close> on text: surrounding whitespace, an optional sign, then digits, no more
      of them than the interpreter's limit; anything else raises ValueError\<close>
  "py_int s =
     (let t = rev (dropWhile is_int_space (rev (dropWhile is_int_space s))) in
      if int_max_str_digits < length (filter is_digit t) then Inl ValueError
      else
        (case t of
           [] \<Rightarrow> Inl ValueError
         | c # r \<Rightarrow>
             (if c = CHR ''-'' then
                (case parse_digits r 0 False of
                   None \<Rightarrow> Inl ValueError | Some n \<Rightarrow> Inr (- int n))
              else if c = CHR ''+'' then
                (case parse_digits r 0 False of
                   None \<Rightarrow> Inl ValueError | Some n \<Rightarrow> Inr (int n))
              else
                (case parse_digits (c # r) 0 False of
                   None \<Rightarrow> Inl ValueError | Some n \<Rightarrow> Inr (int n)))))"

section \<open>The host library: \<open>Automation2040W\<close> over a serial port\<close>

text \<open>
  The serial port as the library sees it. \<open>tx\<close> is what has been written to the wire, one
  entry per \<open>write\<close>. \<open>rx\<close> is what the successive calls of \<open>readline()\<close> will return,
  undecoded: a read that times out returns the empty line, and so does every read once
  \<open>rx\<close> is used up. \<open>io_fault\<close> stands for a port whose \<open>write\<close> raises
  \<open>SerialException\<close> (the device has gone away).
\<close>

record serial_port =
  is_open :: bool
  io_fault :: bool
  tx :: "string list"
  rx :: "string list"

text \<open>The fields of \<open>Automation2040W\<close> that the commands use.\<close>

record board =
  port :: "string option"
  serial :: "serial_port option"
  version :: "string option"

definition ends_response :: "string \<Rightarrow> bool" where
  \<comment> \<open>the test that ends the read loop of \<open>_send_command\<close>\<close>
  "ends_response line =
     (startswith line ''OK'' \<or> startswith line ''ERR'' \<or> startswith line ''{'')"

fun read_response :: "string list \<Rightarrow> string list \<Rightarrow> string list \<times> string list" where
  \<comment> \<open>the \<open>while True\<close> loop of \<open>_send_command\<close>: the pending reads and the lines kept so
      far, to the lines kept at the end and the reads left\<close>
  "read_response [] lines = (lines, [])"
| "read_response (raw # rest) lines =
     (let line = strip raw in
      if line = [] then (lines, rest)
      else if startswith line ''#'' then read_response rest lines
      else if ends_response line then (lines @ [line], rest)
      else read_response rest (lines @ [line]))"

definition send_command :: "board \<Rightarrow> string \<Rightarrow> (exn + string) \<times> board" where
  \<comment> \<open>\<open>_send_command\<close>\<close>
  "send_command b command =
     (case serial b of
        None \<Rightarrow> (Inl (CommandError ''Not connected to board''), b)
      | Some p \<Rightarrow>
          if \<not> is_open p then (Inl (CommandError ''Not connected to board''), b)
          else if io_fault p then (Inl SerialException, b)
          else
            (let (lines, rest) = read_response (rx p) [];
                 b' = b\<lparr>serial := Some (p\<lparr>tx := tx p @ [command @ [CHR 0x0A]], rx := rest\<rparr>)\<rparr>;
                 response = join_lines lines
             in if lines = [] then (Inl (CommandError ''No response from board''), b')
                else if startswith response ''ERR'' then (Inl (CommandError (drop 4 response)), b')
                else if startswith response ''OK'' then (Inr (strip (drop 2 response)), b')
                else (Inr response, b')))"

text \<open>
  The values a decoded JSON request body hands to the library: \<open>None\<close>, a boolean, an
  integer or a string. JSON numbers with a fraction, arrays and objects as field values
  are not modelled. An integer of more digits than the interpreter's limit reaches no
  handler: the JSON decoder and the route's converter refuse it as \<open>int()\<close> does.
\<close>

datatype pyval = PyNone | PyBool bool | PyInt int | PyStr string

fun truthy :: "pyval \<Rightarrow> bool" where
  "truthy PyNone = False"
| "truthy (PyBool b) = b"
| "truthy (PyInt i) = (i \<noteq> 0)"
| "truthy (PyStr s) = (s \<noteq> [])"

fun py_str :: "pyval \<Rightarrow> string" where
  \<comment> \<open>how an f-string renders the value\<close>
  "py_str PyNone = ''None''"
| "py_str (PyBool b) = (if b then ''True'' else ''False'')"
| "py_str (PyInt i) = str_int i"
| "py_str (PyStr s) = s"

definition relay :: "board \<Rightarrow> int \<Rightarrow> pyval \<Rightarrow> (exn + pyval) \<times> board" where
  "relay b index state =
     (if state \<noteq> PyNone then
        (case send_command b
                (''RELAY '' @ str_int index @ '' '' @ (if truthy state then ''ON'' else ''OFF'')) of
           (Inl e, b') \<Rightarrow> (Inl e, b')
         | (Inr r, b') \<Rightarrow> (Inr state, b'))
      else
        (case send_command b (''RELAY '' @ str_int index @ ''?'') of
           (Inl e, b') \<Rightarrow> (Inl e, b')
         | (Inr r, b') \<Rightarrow> (Inr (PyBool (r = ''ON'')), b')))"

definition output_pwm :: "board \<Rightarrow> int \<Rightarrow> pyval \<Rightarrow> (exn + pyval) \<times> board" where
  "output_pwm b index value =
     (if value \<noteq> PyNone then
        (let value' = (case value of PyBool t \<Rightarrow> PyInt (if t then 100 else 0) | v \<Rightarrow> v) in
         case send_command b (''OUTPUT '' @ str_int index @ '' '' @ py_str value') of
           (Inl e, b') \<Rightarrow> (Inl e, b')
         | (Inr r, b') \<Rightarrow> (Inr value', b'))
      else
        (case send_command b (''OUTPUT '' @ str_int index @ ''?'') of
           (Inl e, b') \<Rightarrow> (Inl e, b')
         | (Inr r, b') \<Rightarrow>
             (case py_int r of Inl e \<Rightarrow> (Inl e, b') | Inr i \<Rightarrow> (Inr (PyInt i), b'))))"



definition disconnect :: "board \<Rightarrow> board" where
  "disconnect b =
     (case serial b of
        None \<Rightarrow> b
      | Some p \<Rightarrow> if is_open p then b\<lparr>serial := None\<rparr> else b)"





section \<open>The host service: \<open>AutomationService\<close>\<close>

text \<open>
  The warnings and errors the service logs, one constructor per logging call; debug and
  info records are left out.
\<close>

datatype log_entry =
    RelayRejected nat
  | RelayControlError exn
  | OutputRejected nat
  | OutputControlError exn
  | ResetRejected
  | ResetError exn
  | BoardConnectionFailed conn_failure
  | BoardCommunicationError exn
  | TotalErrors int
  | MqttSetupFailed
  | MqttConnectionFailed int
  | MqttDisconnected int
  | MqttBoardNotConnected
  | MqttMessageError exn

record config =
  serial_port_cfg :: "string option"
  topic_prefix :: string

text \<open>
  The state of the service. \<open>'st\<close> is the type of a decoded status document, the value
  of \<open>json.loads\<close>. \<open>mqtt_client\<close> says whether the client object exists; \<open>published\<close>
  lists the documents handed to \<open>publish\<close> on the status topic.
\<close>

record 'st service =
  config :: config
  running :: bool
  board :: "board option"
  mqtt_client :: bool
  board_connected :: bool
  mqtt_connected :: bool
  last_status :: 'st
  error_count :: int
  published :: "'st list"
  log :: "log_entry list"

definition init_service :: "config \<Rightarrow> 'st \<Rightarrow> 'st service" where
  \<comment> \<open>\<open>__init__\<close>; the second argument is the empty dictionary\<close>
  "init_service cfg empty_status =
     \<lparr>config = cfg, running = False, board = None, mqtt_client = False,
      board_connected = False, mqtt_connected = False, last_status = empty_status,
      error_count = 0, published = [], log = []\<rparr>"

text \<open>
  The HTTP responses: the JSON document and the status code. \<open>ErrorExn e\<close> is the
  document \<open>{"error": str(e)}\<close>. Of the health document, the fields that depend on the
  clock or repeat the configuration are left out.
\<close>

datatype 'st http_body =
    Error string
  | ErrorExn exn
  | RelayOk nat pyval
  | OutputOk nat pyval
  | ResetOk
  | StatusJson 'st
  | HealthJson string bool bool int


definition get_status :: "'st service \<Rightarrow> 'st http_body \<times> nat" where
  \<comment> \<open>the handler \<open>status\<close> of \<open>GET /api/status\<close>\<close>
  "get_status s =
     (if \<not> board_connected s then (Error ''Board not connected'', 503)
      else (StatusJson (last_status s), 200))"

text \<open>
  The write handlers. The channel number comes from the route's \<open>int\<close> converter, which
  accepts digits only. The third argument is what \<open>request.get_json()\<close> does with the
  request: it aborts it with an HTTP error status (\<open>Rejected\<close>), as the framework does
  for a body that is missing or is not JSON, or it returns the decoded body, a JSON
  object (\<open>JsonObject\<close>) or another JSON value (\<open>JsonValue\<close>, \<open>null\<close> being \<open>PyNone\<close>).
  The call and the read of the field stand before the \<open>try\<close>: an exception they raise
  leaves the handler (\<open>Inl\<close>), and the framework answers it, an \<open>HTTPException\<close> with
  its own status code.
\<close>

datatype request_json =
    Rejected nat
  | JsonObject "string \<rightharpoonup> pyval"
  | JsonValue pyval

definition control_relay ::
  "'st service \<Rightarrow> nat \<Rightarrow> request_json \<Rightarrow> (exn + 'st http_body \<times> nat) \<times> 'st service" where
  "control_relay s relay_num get_json =
     (if \<not> board_connected s then
        (Inr (Error ''Board not connected'', 503),
         s\<lparr>log := log s @ [RelayRejected relay_num]\<rparr>)
      else
        (case (case get_json of
                 Rejected code \<Rightarrow> Inl (HTTPException code)
               | JsonObject data \<Rightarrow>
                   Inr (case data ''state'' of None \<Rightarrow> PyBool True | Some v \<Rightarrow> v)
               | JsonValue v \<Rightarrow> if truthy v then Inl AttributeError else Inr (PyBool True)) of
           Inl e \<Rightarrow> (Inl e, s)
         | Inr state \<Rightarrow>
             (case board s of
                None \<Rightarrow>
                  (Inr (ErrorExn AttributeError, 500),
                   s\<lparr>log := log s @ [RelayControlError AttributeError]\<rparr>)
              | Some b \<Rightarrow>
                  (case relay b (int relay_num) state of
                     (Inl e, b') \<Rightarrow>
                       (Inr (ErrorExn e, 500),
                        s\<lparr>board := Some b', log := log s @ [RelayControlError e]\<rparr>)
                   | (Inr r, b') \<Rightarrow>
                       (Inr (RelayOk relay_num state, 200), s\<lparr>board := Some b'\<rparr>)))))"

definition control_output ::
  "'st service \<Rightarrow> nat \<Rightarrow> request_json \<Rightarrow> (exn + 'st http_body \<times> nat) \<times> 'st service" where
  "control_output s output_num get_json =
     (if \<not> board_connected s then
        (Inr (Error ''Board not connected'', 503),
         s\<lparr>log := log s @ [OutputRejected output_num]\<rparr>)
      else
        (case (case get_json of
                 Rejected code \<Rightarrow> Inl (HTTPException code)
               | JsonObject data \<Rightarrow>
                   Inr (case data ''value'' of None \<Rightarrow> PyInt 100 | Some v \<Rightarrow> v)
               | JsonValue v \<Rightarrow> if truthy v then Inl AttributeError else Inr (PyInt 100)) of
           Inl e \<Rightarrow> (Inl e, s)
         | Inr value \<Rightarrow>
             (case board s of
                None \<Rightarrow>
                  (Inr (ErrorExn AttributeError, 500),
                   s\<lparr>log := log s @ [OutputControlError AttributeError]\<rparr>)
              | Some b \<Rightarrow>
                  (case output_pwm b (int output_num) value of
                     (Inl e, b') \<Rightarrow>
                       (Inr (ErrorExn e, 500),
                        s\<lparr>board := Some b', log := log s @ [OutputControlError e]\<rparr>)
                   | (Inr r, b') \<Rightarrow>
                       (Inr (OutputOk output_num value, 200), s\<lparr>board := Some b'\<rparr>)))))"














section \<open>Runs of the service\<close>





definition wire :: "'st service \<Rightarrow> string list" where
  "wire s =
     (case board s of
        None \<Rightarrow> []
      | Some b \<Rightarrow> (case serial b of None \<Rightarrow> [] | Some p \<Rightarrow> tx p))"


text \<open>
  The lines the standard board's firmware prints for \<open>HELP\<close> (\<open>cmd_help\<close>), with the
  channel counts as arguments.
\<close>

definition cmd_help :: "nat \<Rightarrow> nat \<Rightarrow> nat \<Rightarrow> nat \<Rightarrow> string list" where
  "cmd_help relays outputs inputs adcs =
     [''OK Commands:'',
      ''RELAY <n> <ON|OFF>   - Set relay (1-'' @ str_nat relays @ '')'',
      ''RELAY <n>?           - Query relay state'',
      ''OUTPUT <n> <0-100>   - Set output PWM % (1-'' @ str_nat outputs @ '')'',
      ''OUTPUT <n> <ON|OFF>  - Set output full on/off'',
      ''OUTPUT <n>?          - Query output state'',
      ''INPUT <n>?           - Query input (1-'' @ str_nat inputs @ '')'',
      ''ADC <n>?             - Query ADC voltage (1-'' @ str_nat adcs @ '')'',
      ''LED <A|B> <0-100>    - Set button LED brightness'',
      ''BUTTON <A|B>?        - Query button state'',
      ''STATUS               - Get all states as JSON'',
      ''RESET                - Reset to safe state'',
      ''VERSION              - Show firmware version'',
      ''PING                 - Test connection'']"


section \<open>Sample states\<close>

text \<open>
  Concrete boards and services on which the theorems below are exercised. The sample
  service keeps a status document as its text; its \<open>loads\<close> accepts a line that opens a
  JSON object or a JSON array, and only the former is a dictionary.
\<close>

definition demo_board :: "string list \<Rightarrow> board" where
  "demo_board ls =
     \<lparr>port = Some ''/dev/ttyACM0'',
      serial = Some \<lparr>is_open = True, io_fault = False, tx = [], rx = ls\<rparr>,
      version = Some ''1.0.0''\<rparr>"

definition demo_port :: "string list \<Rightarrow> serial_port" where
  "demo_port ls = \<lparr>is_open = True, io_fault = False, tx = [], rx = ls\<rparr>"

definition demo_config :: config where
  "demo_config = \<lparr>serial_port_cfg = None, topic_prefix = ''automation''\<rparr>"



definition demo_connected :: "string list \<Rightarrow> string service" where
  "demo_connected ls =
     (init_service demo_config ''{}'')
       \<lparr>running := True, board := Some (demo_board ls), board_connected := True\<rparr>"

definition demo_disconnected :: "string service" where
  "demo_disconnected = (init_service demo_config ''{}'')\<lparr>running := True\<rparr>"


section \<open>The read loop of \<open>_send_command\<close>\<close>



lemma ends_response_line:
  "ends_response l \<Longrightarrow> l \<noteq> [] \<and> \<not> startswith l ''#''"
  by (cases l) (auto simp: ends_response_def startswith_def)

text \<open>
  When a line that ends a response arrives before any empty read, the loop returns the
  lines up to and including it, comments dropped, and leaves the rest unread.
\<close>

lemma read_response_terminated:
  assumes "\<forall>l\<in>set pre. strip l \<noteq> [] \<and> \<not> ends_response (strip l)"
    and "ends_response (strip t)"
  shows "read_response (pre @ t # rest) acc =
           (acc @ filter (\<lambda>l. \<not> startswith l ''#'') (map strip pre) @ [strip t], rest)"
  using assms
proof (induction pre arbitrary: acc)
  case Nil
  then show ?case using ends_response_line [of "strip t"] by (simp add: Let_def)
next
  case (Cons a pre)
  then show ?case by (simp add: Let_def)
qed






text \<open>
  C5 at the help listing. The firmware's listing opens with the line \<open>OK Commands:\<close>,
  which ends the read loop at once: \<open>HELP\<close> returns \<open>Commands:\<close> alone, and the thirteen
  lines of the listing stay unread in the port.
\<close>

theorem send_command_help_truncated:
  "fst (send_command (demo_board (cmd_help 3 3 4 3)) ''HELP'') = Inr ''Commands:'' \<and>
   map_option rx (serial (snd (send_command (demo_board (cmd_help 3 3 4 3)) ''HELP''))) =
     Some (tl (cmd_help 3 3 4 3))"
  by (simp add: demo_board_def send_command_def cmd_help_def ends_response_def startswith_def
        strip_def is_space_def)

section \<open>The HTTP write handlers\<close>

lemma send_command_snd:
  assumes "serial b = Some p" "is_open p" "\<not> io_fault p"
  shows "snd (send_command b command) =
           b\<lparr>serial := Some (p\<lparr>tx := tx p @ [command @ [CHR 0x0A]],
                               rx := snd (read_response (rx p) [])\<rparr>)\<rparr>"
  using assms by (simp add: send_command_def Let_def split: prod.splits)

lemma relay_snd:
  assumes "serial b = Some p" "is_open p" "\<not> io_fault p" "state \<noteq> PyNone"
  shows "snd (relay b index state) =
           b\<lparr>serial := Some (p\<lparr>tx := tx p @
                   [''RELAY '' @ str_int index @ '' '' @ (if truthy state then ''ON'' else ''OFF'')
                      @ [CHR 0x0A]],
                 rx := snd (read_response (rx p) [])\<rparr>)\<rparr>"
  using assms(4)
    send_command_snd [OF assms(1-3),
      of "''RELAY '' @ str_int index @ '' '' @ (if truthy state then ''ON'' else ''OFF'')"]
  by (auto simp: relay_def split: prod.splits sum.splits)

lemma output_snd:
  assumes "serial b = Some p" "is_open p" "\<not> io_fault p"
  shows "snd (output_pwm b index (PyInt v)) =
           b\<lparr>serial := Some (p\<lparr>tx := tx p @
                   [''OUTPUT '' @ str_int index @ '' '' @ str_int v @ [CHR 0x0A]],
                 rx := snd (read_response (rx p) [])\<rparr>)\<rparr>"
  using send_command_snd [OF assms(1-3), of "''OUTPUT '' @ str_int index @ '' '' @ str_int v"]
  by (auto simp: output_pwm_def split: prod.splits sum.splits)

lemma control_output_board:
  assumes "board_connected s" "board s = Some b"
    and "(case get_json of
            Rejected code \<Rightarrow> Inl (HTTPException code)
          | JsonObject data \<Rightarrow>
              Inr (case data ''value'' of None \<Rightarrow> PyInt 100 | Some v \<Rightarrow> v)
          | JsonValue v \<Rightarrow> if truthy v then Inl AttributeError else Inr (PyInt 100)) =
         Inr value"
  shows "board (snd (control_output s n get_json)) = Some (snd (output_pwm b (int n) value))"
  using assms by (simp add: control_output_def split: prod.splits sum.splits)

lemma control_relay_board:
  assumes "board_connected s" "board s = Some b"
    and "(case get_json of
            Rejected code \<Rightarrow> Inl (HTTPException code)
          | JsonObject data \<Rightarrow>
              Inr (case data ''state'' of None \<Rightarrow> PyBool True | Some v \<Rightarrow> v)
          | JsonValue v \<Rightarrow> if truthy v then Inl AttributeError else Inr (PyBool True)) =
         Inr state"
  shows "board (snd (control_relay s n get_json)) = Some (snd (relay b (int n) state))"
  using assms by (simp add: control_relay_def split: prod.splits sum.splits)

text \<open>
  C1, as the code has it. A write request received while the board is connected is not
  validated by the handler: the only test is \<open>board_connected\<close>. With the serial link
  up, \<open>POST /api/output/{n}\<close> with an integer value \<open>v\<close> writes \<open>OUTPUT n v\<close> to the
  serial port, and \<open>POST /api/relay/{n}\<close> with a boolean state writes \<open>RELAY n ON\<close> or
  \<open>RELAY n OFF\<close>, for every channel number and every integer: checking the range is left
  to the device.
\<close>

theorem http_writes_forwarded_unvalidated:
  assumes "board_connected s" "board s = Some b" "serial b = Some p" "is_open p"
    and "\<not> io_fault p"
    and "dv ''value'' = Some (PyInt v)" and "dr ''state'' = Some (PyBool st)"
  shows "wire (snd (control_output s n (JsonObject dv))) =
           wire s @ [''OUTPUT '' @ str_int (int n) @ '' '' @ str_int v @ [CHR 0x0A]] \<and>
         wire (snd (control_relay s n (JsonObject dr))) =
           wire s @ [''RELAY '' @ str_int (int n) @ '' '' @ (if st then ''ON'' else ''OFF'')
                       @ [CHR 0x0A]]"
  using assms control_output_board [OF assms(1,2), of "JsonObject dv" "PyInt v" n]
    control_relay_board [OF assms(1,2), of "JsonObject dr" "PyBool st" n]
    output_snd [OF assms(3-5), of "int n" v] relay_snd [OF assms(3-5), of "PyBool st" "int n"]
  by (simp add: wire_def)

theorem http_writes_forwarded_unvalidated_witness:
  "wire (snd (control_output (demo_connected [''OK'']) 7
                (JsonObject [''value'' \<mapsto> PyInt (-20)]))) =
     [''OUTPUT 7 -20'' @ [CHR 0x0A]] \<and>
   wire (snd (control_relay (demo_connected [''OK'']) 7
                (JsonObject [''state'' \<mapsto> PyBool False]))) =
     [''RELAY 7 OFF'' @ [CHR 0x0A]]"
  using http_writes_forwarded_unvalidated
          [of "demo_connected [''OK'']" "demo_board [''OK'']" "demo_port [''OK'']"
              "[''value'' \<mapsto> PyInt (-20)]" "-20" "[''state'' \<mapsto> PyBool False]" False 7]
  by (simp add: demo_connected_def demo_board_def demo_port_def init_service_def wire_def
        str_int_def str_nat.simps digit_char_def)

text \<open>
  C1 as the specification states it fails: the value 150 is outside 0..100, and the
  request is answered with status 200 after \<open>OUTPUT 1 150\<close> has been written to the port.
\<close>

theorem control_output_150_counterexample:
  "\<not> (0 \<le> (150::int) \<and> (150::int) \<le> 100) \<and>
   control_output (demo_connected [''OK'']) 1 (JsonObject [''value'' \<mapsto> PyInt 150]) =
     (Inr (OutputOk 1 (PyInt 150), 200),
      (demo_connected [''OK''])
        \<lparr>board := Some ((demo_board [])
           \<lparr>serial := Some ((demo_port [])\<lparr>tx := [''OUTPUT 1 150'' @ [CHR 0x0A]]\<rparr>)\<rparr>)\<rparr>)"
  by (simp add: demo_connected_def demo_board_def demo_port_def init_service_def
        control_output_def output_pwm_def send_command_def ends_response_def startswith_def
        strip_def is_space_def str_int_def str_nat.simps digit_char_def)

text \<open>
  C7. While the board is disconnected, \<open>POST /api/relay/{n}\<close> is answered with status 503
  and the document \<open>{"error": "Board not connected"}\<close>, whatever the body; the cached status
  and what \<open>GET /api/status\<close> serves are the same after the request as before, the
  request leaving a warning in the log and nothing else.
\<close>

theorem control_relay_disconnected:
  assumes "\<not> board_connected s"
  shows "fst (control_relay s n get_json) = Inr (Error ''Board not connected'', 503) \<and>
         last_status (snd (control_relay s n get_json)) = last_status s \<and>
         get_status (snd (control_relay s n get_json)) = get_status s \<and>
         snd (control_relay s n get_json) = s\<lparr>log := log s @ [RelayRejected n]\<rparr>"
  using assms by (simp add: control_relay_def get_status_def)

theorem control_relay_disconnected_witness:
  "fst (control_relay demo_disconnected 1 (JsonObject [''state'' \<mapsto> PyBool False])) =
     Inr (Error ''Board not connected'', 503) \<and>
   last_status (snd (control_relay demo_disconnected 1
                  (JsonObject [''state'' \<mapsto> PyBool False]))) = ''{}''"
  using control_relay_disconnected
          [of demo_disconnected 1 "JsonObject [''state'' \<mapsto> PyBool False]"]
  by (simp add: demo_disconnected_def init_service_def)

text \<open>
  C10, as the code has it. For a request received while the board is connected and the
  serial link is up: \<open>POST /api/relay/{n}\<close> whose JSON body is an object with no \<open>state\<close>
  field, or is \<open>null\<close> or another value that counts as false, writes \<open>RELAY n ON\<close> to the
  port, and \<open>POST /api/output/{n}\<close> whose body is an object with no \<open>value\<close> field, or
  such a value, writes \<open>OUTPUT n 100\<close>. A request that \<open>get_json()\<close> rejects, as it does
  a missing body, leaves the handler with that HTTP error: nothing is written and the
  state is unchanged.
\<close>

theorem http_write_defaults:
  assumes "board_connected s" "board s = Some b" "serial b = Some p" "is_open p"
    and "\<not> io_fault p"
    and "case jr of Rejected c \<Rightarrow> False | JsonObject d \<Rightarrow> d ''state'' = None
                  | JsonValue v \<Rightarrow> \<not> truthy v"
    and "case jo of Rejected c \<Rightarrow> False | JsonObject d \<Rightarrow> d ''value'' = None
                  | JsonValue v \<Rightarrow> \<not> truthy v"
  shows "wire (snd (control_relay s n jr)) =
           wire s @ [''RELAY '' @ str_int (int n) @ '' ON'' @ [CHR 0x0A]] \<and>
         wire (snd (control_output s n jo)) =
           wire s @ [''OUTPUT '' @ str_int (int n) @ '' 100'' @ [CHR 0x0A]] \<and>
         control_relay s n (Rejected code) = (Inl (HTTPException code), s) \<and>
         control_output s n (Rejected code) = (Inl (HTTPException code), s)"
proof -
  have r: "(case jr of
              Rejected code \<Rightarrow> Inl (HTTPException code)
            | JsonObject data \<Rightarrow>
                Inr (case data ''state'' of None \<Rightarrow> PyBool True | Some v \<Rightarrow> v)
            | JsonValue v \<Rightarrow> if truthy v then Inl AttributeError else Inr (PyBool True)) =
           Inr (PyBool True)"
    using assms(6) by (cases jr) simp_all
  have v: "(case jo of
              Rejected code \<Rightarrow> Inl (HTTPException code)
            | JsonObject data \<Rightarrow>
                Inr (case data ''value'' of None \<Rightarrow> PyInt 100 | Some v \<Rightarrow> v)
            | JsonValue v \<Rightarrow> if truthy v then Inl AttributeError else Inr (PyInt 100)) =
           Inr (PyInt 100)"
    using assms(7) by (cases jo) simp_all
  have h: "str_int 100 = ''100''"
    by (simp add: str_int_def str_nat.simps digit_char_def)
  have a: "control_relay s n (Rejected code) = (Inl (HTTPException code), s)"
    "control_output s n (Rejected code) = (Inl (HTTPException code), s)"
    using assms(1) by (simp_all add: control_relay_def control_output_def)
  show ?thesis
    using assms(1-5) control_output_board [OF assms(1,2) v, of n]
      control_relay_board [OF assms(1,2) r, of n]
      output_snd [OF assms(3-5), of "int n" 100]
      relay_snd [OF assms(3-5), of "PyBool True" "int n"] a
    by (simp add: wire_def h)
qed

theorem http_write_defaults_witness:
  "wire (snd (control_relay (demo_connected [''OK'']) 2 (JsonValue PyNone))) =
     [''RELAY 2 ON'' @ [CHR 0x0A]] \<and>
   wire (snd (control_output (demo_connected [''OK'']) 2
                (JsonObject [''state'' \<mapsto> PyBool False]))) =
     [''OUTPUT 2 100'' @ [CHR 0x0A]] \<and>
   control_relay (demo_connected [''OK'']) 2 (Rejected 415) =
     (Inl (HTTPException 415), demo_connected [''OK''])"
  using http_write_defaults
          [of "demo_connected [''OK'']" "demo_board [''OK'']" "demo_port [''OK'']"
              "JsonValue PyNone" "JsonObject [''state'' \<mapsto> PyBool False]" 2 415]
  by (simp add: demo_connected_def demo_board_def demo_port_def init_service_def wire_def
        str_int_def str_nat.simps digit_char_def)

text \<open>
  C10 as stated, for every request, fails twice. While the board is disconnected, a
  request whose body \<open>{}\<close> lacks the field is answered with status 503 and no command is
  written. While it is connected, a request with no body, which \<open>get_json()\<close> rejects
  with status 415, ends with that error and no command is written.
\<close>

theorem http_write_defaults_counterexample:
  "control_relay demo_disconnected 1 (JsonObject Map.empty) =
     (Inr (Error ''Board not connected'', 503),
      demo_disconnected\<lparr>log := [RelayRejected 1]\<rparr>) \<and>
   control_output demo_disconnected 1 (JsonObject Map.empty) =
     (Inr (Error ''Board not connected'', 503),
      demo_disconnected\<lparr>log := [OutputRejected 1]\<rparr>) \<and>
   wire (demo_disconnected\<lparr>log := [RelayRejected 1]\<rparr>) = [] \<and>
   wire (demo_disconnected\<lparr>log := [OutputRejected 1]\<rparr>) = [] \<and>
   control_relay (demo_connected [''OK'']) 1 (Rejected 415) =
     (Inl (HTTPException 415), demo_connected [''OK'']) \<and>
   control_output (demo_connected [''OK'']) 1 (Rejected 415) =
     (Inl (HTTPException 415), demo_connected [''OK'']) \<and>
   wire (demo_connected [''OK'']) = []"
  by (simp add: demo_disconnected_def demo_connected_def demo_board_def init_service_def
        control_relay_def control_output_def wire_def)

section \<open>The MQTT message handler\<close>



















section \<open>The worker loop and the error count\<close>




















end
